theory Spec2Isabelle
  imports Complex_Main
begin

section \<open>JavaScript values reaching the converter\<close>

text \<open>
  Request bodies and option objects arrive through \<open>express.json()\<close> or \<open>JSON.parse\<close>,
  so every value the converter sees is a JSON value. A property that is not there reads
  as \<open>undefined\<close>, which is \<open>None\<close> below. Finite numbers are rationals; the program
  only tests them for truthiness and hands them on. Strings are byte strings, and a
  \<open>Buffer\<close> is one as well. An object is the list of its properties, read with
  \<open>map_of\<close>.
\<close>

datatype json =
    JNull
  | JBool bool
  | JNum rat
  | JStr string
  | JArr "json list"
  | JObj "(string \<times> json) list"

type_synonym buffer = string

datatype error = Error (message: string)

text \<open>
  \<open>v.k\<close> for the property names this program reads (\<open>html\<close>, \<open>url\<close>, \<open>options\<close>,
  \<open>format\<close>, \<open>orientation\<close>, \<open>margin\<close>, \<open>printBackground\<close>, \<open>scale\<close>,
  \<open>timeout\<close>, \<open>headless\<close>): only an object can own one of them, and neither arrays,
  strings, numbers nor booleans inherit one. Reading a property of \<open>null\<close> throws; that
  case is handled where the destructuring happens.
\<close>

fun get_prop :: "json \<Rightarrow> string \<Rightarrow> json option" where
  "get_prop (JObj kvs) k = map_of kvs k"
| "get_prop _ k = None"

text \<open>A destructuring default \<open>{ k = d }\<close> and a parameter default apply to \<open>undefined\<close> only.\<close>

definition with_default :: "json option \<Rightarrow> json \<Rightarrow> json" where
  "with_default v d = (case v of None \<Rightarrow> d | Some x \<Rightarrow> x)"

text \<open>\<open>!v\<close> is \<open>\<not> truthy v\<close>.\<close>

fun truthy :: "json \<Rightarrow> bool" where
  "truthy JNull = False"
| "truthy (JBool b) = b"
| "truthy (JNum n) = (n \<noteq> 0)"
| "truthy (JStr s) = (s \<noteq> [])"
| "truthy (JArr xs) = True"
| "truthy (JObj kvs) = True"

text \<open>
  The \<open>TypeError\<close> of an object pattern matched against \<open>null\<close> or \<open>undefined\<close>. When
  the first property of the pattern has no default, the message names the property,
  the matched expression and what it was; when it has one, the message is that of
  reading the property.
\<close>

definition cannot_destructure :: "string \<Rightarrow> string \<Rightarrow> string \<Rightarrow> error" where
  "cannot_destructure k name what =
     Error (''Cannot destructure property '' @ [CHR 0x27] @ k @ [CHR 0x27] @ '' of ''
            @ [CHR 0x27] @ name @ [CHR 0x27] @ '' as it is '' @ what @ ''.'')"

definition cannot_read_null :: "string \<Rightarrow> error" where
  "cannot_read_null k =
     Error (''Cannot read properties of null (reading '' @ [CHR 0x27] @ k @ [CHR 0x27] @ '')'')"

section \<open>Option resolution in \<open>convertHTML\<close>\<close>

text \<open>The bindings made by the object pattern at the head of \<open>convertHTML\<close>.\<close>

record render_options =
  format :: json
  orientation :: json
  margin :: json
  printBackground :: json
  scale :: json
  timeout :: json

definition default_margin :: json where
  "default_margin =
     JObj [(''top'', JStr ''20px''), (''bottom'', JStr ''20px''),
           (''left'', JStr ''20px''), (''right'', JStr ''20px'')]"

text \<open>
  The pattern match itself, \<open>const { format = 'A4', ... } = options\<close>: it throws on
  \<open>null\<close> and on nothing else.
\<close>

definition resolve :: "json \<Rightarrow> error + render_options" where
  "resolve options =
     (if options = JNull then Inl (cannot_read_null ''format'')
      else Inr \<lparr> format = with_default (get_prop options ''format'') (JStr ''A4''),
                 orientation = with_default (get_prop options ''orientation'') (JStr ''portrait''),
                 margin = with_default (get_prop options ''margin'') default_margin,
                 printBackground = with_default (get_prop options ''printBackground'') (JBool True),
                 scale = with_default (get_prop options ''scale'') (JNum 1),
                 timeout = with_default (get_prop options ''timeout'') (JNum 30000) \<rparr>)"

section \<open>The rendering engine\<close>

text \<open>
  The object handed to \<open>setOptions\<close>. The server leaves \<open>path\<close> out (\<open>None\<close>) and
  always passes \<open>headless: 'new'\<close>.
\<close>

record pdf_options =
  format :: json
  landscape :: bool
  margin :: json
  printBackground :: json
  scale :: json
  timeout :: json
  headless :: json
  path :: "string option"
  args :: "string list"

text \<open>
  One \<open>PuppeteerHTMLPDF\<close> instance: the options last set, whether its browser process
  is running, and how many times \<open>create\<close> has been called on it.
\<close>

record html_pdf =
  current_options :: "pdf_options option"
  browser_open :: bool
  create_calls :: nat

text \<open>
  What the program calls but does not define. \<open>render\<close> is the outcome of
  \<open>htmlPDF.create\<close> for the options in force and the content given: the bytes of the
  document, or the error it throws (a timeout is one of these errors). \<open>JSON_parse\<close> is
  \<open>JSON.parse\<close>, \<open>decode_utf8\<close> is the decoding that \<open>fs.readFile(p, 'utf-8')\<close>
  applies to the bytes of a file, \<open>dirname\<close> is \<open>path.dirname\<close>, and \<open>uploads\<close> is the
  directory \<open>path.join(__dirname, 'uploads')\<close>.
\<close>

record externals =
  render :: "pdf_options option \<Rightarrow> json \<Rightarrow> error + buffer"
  JSON_parse :: "string \<Rightarrow> error + json"
  decode_utf8 :: "string \<Rightarrow> string"
  dirname :: "string \<Rightarrow> string"
  uploads :: string

text \<open>
  The file system (file contents by path, and the directories made by \<open>ensureDir\<close>) and
  the engine instances made so far, each in the state its request left it in. Console
  output is not part of the model.
\<close>

record world =
  disk :: "string \<rightharpoonup> string"
  dirs :: "string set"
  sessions :: "html_pdf list"

definition new_PuppeteerHTMLPDF :: html_pdf where
  "new_PuppeteerHTMLPDF = \<lparr> current_options = None, browser_open = False, create_calls = 0 \<rparr>"

definition setOptions :: "pdf_options \<Rightarrow> html_pdf \<Rightarrow> html_pdf" where
  "setOptions pdfOptions h = h\<lparr> current_options := Some pdfOptions \<rparr>"

text \<open>
  \<open>create\<close> starts the browser and leaves it running whatever the outcome; when the
  options carry a \<open>path\<close>, a successful render also writes the document there.
  The call is taken to settle (it resolves or it rejects), and \<open>closeBrowser\<close> to succeed.
\<close>

definition create :: "externals \<Rightarrow> json \<Rightarrow> html_pdf \<Rightarrow> world \<Rightarrow> (error + buffer) \<times> html_pdf \<times> world" where
  "create x htmlContent h w =
     (let r = render x (current_options h) htmlContent;
          h' = h\<lparr> browser_open := True, create_calls := Suc (create_calls h) \<rparr>
      in case (r, current_options h) of
           (Inr pdf, Some po) \<Rightarrow>
             (case path po of
                Some p \<Rightarrow> (r, h', w\<lparr> disk := (disk w)(p \<mapsto> pdf) \<rparr>)
              | None \<Rightarrow> (r, h', w))
         | _ \<Rightarrow> (r, h', w))"

definition closeBrowser :: "html_pdf \<Rightarrow> html_pdf" where
  "closeBrowser h = h\<lparr> browser_open := False \<rparr>"

section \<open>The server's \<open>HTMLToPDFConverter\<close>\<close>

definition pdfOptions :: "render_options \<Rightarrow> pdf_options" where
  "pdfOptions r =
     \<lparr> format = render_options.format r,
       landscape = (orientation r = JStr ''landscape''),
       margin = render_options.margin r,
       printBackground = render_options.printBackground r,
       scale = render_options.scale r,
       timeout = render_options.timeout r,
       headless = JStr ''new'',
       path = None,
       args = [''--no-sandbox'', ''--disable-setuid-sandbox''] \<rparr>"

text \<open>
  \<open>convertHTML(htmlContent, options = {})\<close>: the pattern match comes before the
  \<open>try\<close>, so its error leaves the engine untouched; inside the \<open>try\<close>, the \<open>catch\<close>
  rewraps the engine's error and the \<open>finally\<close> closes the browser on both paths.
\<close>

definition convertHTML ::
  "externals \<Rightarrow> json \<Rightarrow> json option \<Rightarrow> html_pdf \<Rightarrow> world \<Rightarrow> (error + buffer) \<times> html_pdf \<times> world" where
  "convertHTML x htmlContent options h w =
     (case resolve (with_default options (JObj [])) of
        Inl e \<Rightarrow> (Inl e, h, w)
      | Inr r \<Rightarrow>
          (case create x htmlContent (setOptions (pdfOptions r) h) w of
             (Inr pdfBuffer, h', w') \<Rightarrow> (Inr pdfBuffer, closeBrowser h', w')
           | (Inl e, h', w') \<Rightarrow>
               (Inl (Error (''PDF creation failed: '' @ message e)), closeBrowser h', w')))"

section \<open>Responses\<close>

datatype payload = Json json | Binary buffer

text \<open>Only the headers the handlers set themselves are recorded.\<close>

record response =
  status :: nat
  headers :: "(string \<times> string) list"
  payload :: payload

text \<open>\<open>res.status(code).json({ error: msg })\<close>\<close>

definition json_error :: "nat \<Rightarrow> string \<Rightarrow> response" where
  "json_error code msg =
     \<lparr> status = code, headers = [], payload = Json (JObj [(''error'', JStr msg)]) \<rparr>"

text \<open>The two \<open>setHeader\<close> calls followed by \<open>res.send(pdfBuffer)\<close>; the status stays 200.\<close>

definition send_pdf :: "buffer \<Rightarrow> response" where
  "send_pdf pdfBuffer =
     \<lparr> status = 200,
       headers = [(''Content-Type'', ''application/pdf''),
                  (''Content-Disposition'', ''attachment; filename='' @ [CHR 0x22] @ ''converted.pdf'' @ [CHR 0x22])],
       payload = Binary pdfBuffer \<rparr>"

text \<open>The final error-handling middleware.\<close>

definition error_middleware :: "error \<Rightarrow> response" where
  "error_middleware e = json_error 500 (message e)"

section \<open>Routes taking a JSON body\<close>

text \<open>
  Each request makes its own converter, whose engine instance is entered in \<open>sessions\<close>
  in the state the request leaves it in. \<open>body\<close> is \<open>req.body\<close> as the handler finds
  it: \<open>None\<close> when it is \<open>undefined\<close> (no body parser filled it in), otherwise the
  parsed value. The pattern \<open>{ html, options = {} }\<close> throws, inside the \<open>try\<close>, on
  an \<open>undefined\<close> and on a \<open>null\<close> body.
\<close>

definition new_HTMLToPDFConverter :: html_pdf where
  "new_HTMLToPDFConverter = new_PuppeteerHTMLPDF"

definition convert_string :: "externals \<Rightarrow> json option \<Rightarrow> world \<Rightarrow> response \<times> world" where
  "convert_string x body w =
     (case body of
        None \<Rightarrow>
          (json_error 500 (message (cannot_destructure ''html'' ''req.body'' ''undefined'')), w)
      | Some b \<Rightarrow>
          if b = JNull
          then (json_error 500 (message (cannot_destructure ''html'' ''req.body'' ''null'')), w)
          else
            let html = get_prop b ''html'';
                options = with_default (get_prop b ''options'') (JObj [])
            in case html of
                 None \<Rightarrow> (json_error 400 ''HTML content is required'', w)
               | Some v \<Rightarrow>
                   if \<not> truthy v then (json_error 400 ''HTML content is required'', w)
                   else
                     (case convertHTML x v (Some options) new_HTMLToPDFConverter w of
                        (Inr pdfBuffer, h, w') \<Rightarrow>
                          (send_pdf pdfBuffer, w'\<lparr> sessions := sessions w' @ [h] \<rparr>)
                      | (Inl e, h, w') \<Rightarrow>
                          (json_error 500 (message e), w'\<lparr> sessions := sessions w' @ [h] \<rparr>)))"

definition convert_url :: "externals \<Rightarrow> json option \<Rightarrow> world \<Rightarrow> response \<times> world" where
  "convert_url x body w =
     (case body of
        None \<Rightarrow>
          (json_error 500 (message (cannot_destructure ''url'' ''req.body'' ''undefined'')), w)
      | Some b \<Rightarrow>
          if b = JNull
          then (json_error 500 (message (cannot_destructure ''url'' ''req.body'' ''null'')), w)
          else
            let url = get_prop b ''url'';
                options = with_default (get_prop b ''options'') (JObj [])
            in case url of
                 None \<Rightarrow> (json_error 400 ''URL is required'', w)
               | Some v \<Rightarrow>
                   if \<not> truthy v then (json_error 400 ''URL is required'', w)
                   else
                     (case convertHTML x v (Some options) new_HTMLToPDFConverter w of
                        (Inr pdfBuffer, h, w') \<Rightarrow>
                          (send_pdf pdfBuffer, w'\<lparr> sessions := sessions w' @ [h] \<rparr>)
                      | (Inl e, h, w') \<Rightarrow>
                          (json_error 500 (message e), w'\<lparr> sessions := sessions w' @ [h] \<rparr>)))"

section \<open>The upload route\<close>

text \<open>
  The file part sent in the form field \<open>htmlFile\<close>, within the size limit that multer
  enforces on its own.
\<close>

record upload =
  originalname :: string
  mimetype :: string
  data :: string

text \<open>
  A multipart request: the file part if there is one, the text fields in the order sent
  (multer makes \<open>req.body\<close> of them; the names are plain ones, without brackets), and
  the suffix that \<open>Date.now()\<close> and \<open>Math.random()\<close> give the stored name.
\<close>

record file_request =
  file_part :: "upload option"
  text_fields :: "(string \<times> string) list"
  uniqueSuffix :: string

definition endsWith :: "string \<Rightarrow> string \<Rightarrow> bool" where
  "endsWith s t = (length t \<le> length s \<and> drop (length s - length t) s = t)"

definition fileFilter :: "upload \<Rightarrow> error + bool" where
  "fileFilter file =
     (if mimetype file = ''text/html'' \<or> endsWith (originalname file) ''.html'' then Inr True
      else Inl (Error ''Only HTML files are allowed!''))"

definition stored_path :: "externals \<Rightarrow> file_request \<Rightarrow> string" where
  "stored_path x req = uploads x @ ''/'' @ ''htmlFile'' @ ''-'' @ uniqueSuffix req @ ''.html''"

text \<open>
  \<open>upload.single('htmlFile')\<close>: the filter runs before the storage engine, so a refused
  part is never written; an accepted one is stored under \<open>uploads\<close> (a directory that
  can be made) and its path becomes \<open>req.file.path\<close>. A filter error goes to the
  error-handling middleware.
\<close>

definition upload_single :: "externals \<Rightarrow> file_request \<Rightarrow> world \<Rightarrow> (error + string option) \<times> world" where
  "upload_single x req w =
     (case file_part req of
        None \<Rightarrow> (Inr None, w)
      | Some file \<Rightarrow>
          (case fileFilter file of
             Inl e \<Rightarrow> (Inl e, w)
           | Inr accepted \<Rightarrow>
               if \<not> accepted then (Inr None, w)
               else (Inr (Some (stored_path x req)),
                     w\<lparr> dirs := insert (uploads x) (dirs w),
                        disk := (disk w)(stored_path x req \<mapsto> data file) \<rparr>)))"

text \<open>
  \<open>fs.readFile(p, 'utf-8')\<close>, which decodes the bytes it finds, and \<open>fs.remove(p)\<close>.
\<close>

definition readFile :: "externals \<Rightarrow> string \<Rightarrow> world \<Rightarrow> error + string" where
  "readFile x p w =
     (case disk w p of
        Some bytes \<Rightarrow> Inr (decode_utf8 x bytes)
      | None \<Rightarrow>
          if p \<in> dirs w then Inl (Error ''EISDIR: illegal operation on a directory, read'')
          else Inl (Error (''ENOENT: no such file or directory, open '' @ [CHR 0x27] @ p @ [CHR 0x27])))"

definition remove :: "string \<Rightarrow> world \<Rightarrow> world" where
  "remove p w = w\<lparr> disk := (disk w)(p := None) \<rparr>"

text \<open>\<open>String(values)\<close> of an array of strings: its members joined by commas.\<close>

fun join_comma :: "string list \<Rightarrow> string" where
  "join_comma [] = []"
| "join_comma [s] = s"
| "join_comma (s # t # ts) = s @ '','' @ join_comma (t # ts)"

text \<open>
  \<open>req.body.options ? JSON.parse(req.body.options) : {}\<close>. A field sent once is a
  string; sent several times it is the array of its values, which is truthy and which
  \<open>JSON.parse\<close> turns into a string first.
\<close>

definition parse_options :: "externals \<Rightarrow> (string \<times> string) list \<Rightarrow> error + json" where
  "parse_options x body =
     (case map snd (filter (\<lambda>kv. fst kv = ''options'') body) of
        [] \<Rightarrow> Inr (JObj [])
      | [s] \<Rightarrow> if s = [] then Inr (JObj []) else JSON_parse x s
      | vs \<Rightarrow> JSON_parse x (join_comma vs))"

definition convert_file ::
  "externals \<Rightarrow> string option \<Rightarrow> (string \<times> string) list \<Rightarrow> world \<Rightarrow> response \<times> world" where
  "convert_file x file body w =
     (case file of
        None \<Rightarrow> (json_error 400 ''HTML file is required'', w)
      | Some p \<Rightarrow>
          (case parse_options x body of
             Inl e \<Rightarrow> (json_error 500 (message e), w)
           | Inr options \<Rightarrow>
               (case readFile x p w of
                  Inl e \<Rightarrow> (json_error 500 (message e), w)
                | Inr htmlContent \<Rightarrow>
                    (case convertHTML x (JStr htmlContent) (Some options) new_HTMLToPDFConverter w of
                       (Inr pdfBuffer, h, w') \<Rightarrow>
                         (send_pdf pdfBuffer, (remove p w')\<lparr> sessions := sessions w' @ [h] \<rparr>)
                     | (Inl e, h, w') \<Rightarrow>
                         (json_error 500 (message e), w'\<lparr> sessions := sessions w' @ [h] \<rparr>)))))"

text \<open>\<open>POST /api/convert/file\<close>: the multer middleware, then the handler.\<close>

definition post_convert_file :: "externals \<Rightarrow> file_request \<Rightarrow> world \<Rightarrow> response \<times> world" where
  "post_convert_file x req w =
     (case upload_single x req w of
        (Inl e, w') \<Rightarrow> (error_middleware e, w')
      | (Inr file, w') \<Rightarrow> convert_file x file (text_fields req) w')"

section \<open>\<open>GET /api/options\<close>\<close>

definition get_options :: "world \<Rightarrow> response \<times> world" where
  "get_options w =
     (\<lparr> status = 200, headers = [],
        payload = Json (JObj
          [(''formats'', JArr (map JStr [''A4'', ''Letter'', ''Legal'', ''Tabloid'', ''Ledger'',
                                         ''A0'', ''A1'', ''A2'', ''A3'', ''A5'', ''A6''])),
           (''orientations'', JArr [JStr ''portrait'', JStr ''landscape'']),
           (''defaultOptions'', JObj
              [(''format'', JStr ''A4''),
               (''orientation'', JStr ''portrait''),
               (''margin'', JObj [(''top'', JStr ''20px''), (''bottom'', JStr ''20px''),
                                  (''left'', JStr ''20px''), (''right'', JStr ''20px'')]),
               (''printBackground'', JBool True),
               (''scale'', JNum 1),
               (''timeout'', JNum 30000)])]) \<rparr>, w)"

section \<open>The command-line \<open>HTMLToPDFConverter\<close>\<close>

text \<open>
  The command-line converter's pattern has one more binding, \<open>headless = 'new'\<close>, and
  its options carry the output path.
\<close>

definition cli_pdfOptions :: "json \<Rightarrow> string \<Rightarrow> render_options \<Rightarrow> pdf_options" where
  "cli_pdfOptions options outputPdf r =
     \<lparr> format = render_options.format r,
       landscape = (orientation r = JStr ''landscape''),
       margin = render_options.margin r,
       printBackground = render_options.printBackground r,
       scale = render_options.scale r,
       timeout = render_options.timeout r,
       headless = with_default (get_prop options ''headless'') (JStr ''new''),
       path = Some outputPdf,
       args = [''--no-sandbox'', ''--disable-setuid-sandbox''] \<rparr>"

text \<open>Here the \<open>catch\<close> rethrows the engine's own error, and nothing is returned.\<close>

definition cli_convertHTML ::
  "externals \<Rightarrow> json \<Rightarrow> string \<Rightarrow> json option \<Rightarrow> html_pdf \<Rightarrow> world \<Rightarrow> (error + unit) \<times> html_pdf \<times> world" where
  "cli_convertHTML x htmlContent outputPdf options h w =
     (case resolve (with_default options (JObj [])) of
        Inl e \<Rightarrow> (Inl e, h, w)
      | Inr r \<Rightarrow>
          (case create x htmlContent
                  (setOptions (cli_pdfOptions (with_default options (JObj [])) outputPdf r) h) w of
             (Inr pdf, h', w') \<Rightarrow> (Inr (), closeBrowser h', w')
           | (Inl e, h', w') \<Rightarrow> (Inl e, closeBrowser h', w')))"

definition pathExists :: "string \<Rightarrow> world \<Rightarrow> bool" where
  "pathExists p w = (disk w p \<noteq> None \<or> p \<in> dirs w)"

text \<open>\<open>fs.ensureDir(d)\<close> makes the directory, and rejects when \<open>d\<close> is a file.\<close>

definition ensureDir :: "string \<Rightarrow> world \<Rightarrow> error + world" where
  "ensureDir d w =
     (if disk w d \<noteq> None
      then Inl (Error (''EEXIST: file already exists, mkdir '' @ [CHR 0x27] @ d @ [CHR 0x27]))
      else Inr (w\<lparr> dirs := insert d (dirs w) \<rparr>))"

definition convertFromFile ::
  "externals \<Rightarrow> string \<Rightarrow> string \<Rightarrow> json option \<Rightarrow> html_pdf \<Rightarrow> world \<Rightarrow> (error + unit) \<times> html_pdf \<times> world" where
  "convertFromFile x htmlFile outputPdf options h w =
     (if \<not> pathExists htmlFile w
      then (Inl (Error (''HTML file '' @ [CHR 0x27] @ htmlFile @ [CHR 0x27] @ '' not found!'')), h, w)
      else
        case ensureDir (dirname x outputPdf) w of
          Inl e \<Rightarrow> (Inl e, h, w)
        | Inr w1 \<Rightarrow>
            (case readFile x htmlFile w1 of
               Inl e \<Rightarrow> (Inl e, h, w1)
             | Inr htmlContent \<Rightarrow> cli_convertHTML x (JStr htmlContent) outputPdf options h w1))"

definition convertFromURL ::
  "externals \<Rightarrow> string \<Rightarrow> string \<Rightarrow> json option \<Rightarrow> html_pdf \<Rightarrow> world \<Rightarrow> (error + unit) \<times> html_pdf \<times> world" where
  "convertFromURL x url outputPdf options h w =
     (case ensureDir (dirname x outputPdf) w of
        Inl e \<Rightarrow> (Inl e, h, w)
      | Inr w1 \<Rightarrow> cli_convertHTML x (JStr url) outputPdf options h w1)"

definition convertFromString ::
  "externals \<Rightarrow> string \<Rightarrow> string \<Rightarrow> json option \<Rightarrow> html_pdf \<Rightarrow> world \<Rightarrow> (error + unit) \<times> html_pdf \<times> world" where
  "convertFromString x htmlString outputPdf options h w =
     (case ensureDir (dirname x outputPdf) w of
        Inl e \<Rightarrow> (Inl e, h, w)
      | Inr w1 \<Rightarrow> cli_convertHTML x (JStr htmlString) outputPdf options h w1)"

section \<open>Sample environments\<close>

text \<open>
  Two engines for concrete runs: one that prints every page, one that fails the way a
  navigation timeout does. Both parse only the option strings the runs below use, and
  the files they read are plain ASCII, which decoding leaves as it is.
\<close>

definition printing :: externals where
  "printing =
     \<lparr> render = (\<lambda>po c. Inr ''%PDF-1.4''),
       JSON_parse = (\<lambda>s. if s = ''{}'' then Inr (JObj []) else Inl (Error ''Unexpected token'')),
       decode_utf8 = (\<lambda>bytes. bytes),
       dirname = (\<lambda>p. ''out''),
       uploads = ''/app/uploads'' \<rparr>"

definition timing_out :: externals where
  "timing_out = printing\<lparr> render := (\<lambda>po c. Inl (Error ''Navigation timeout of 30000 ms exceeded'')) \<rparr>"

definition empty_world :: world where
  "empty_world = \<lparr> disk = Map.empty, dirs = {}, sessions = [] \<rparr>"

text \<open>What an empty options object resolves to.\<close>

definition default_options :: render_options where
  "default_options =
     \<lparr> render_options.format = JStr ''A4'',
       orientation = JStr ''portrait'',
       render_options.margin = default_margin,
       render_options.printBackground = JBool True,
       render_options.scale = JNum 1,
       render_options.timeout = JNum 30000 \<rparr>"

text \<open>Two uploads: an HTML page, and a text file that the filter refuses.\<close>

definition html_upload :: file_request where
  "html_upload =
     \<lparr> file_part = Some \<lparr> originalname = ''page.html'', mimetype = ''text/html'',
                          data = ''<h1>Hi</h1>'' \<rparr>,
       text_fields = [],
       uniqueSuffix = ''1722699000000-42'' \<rparr>"

definition text_upload :: file_request where
  "text_upload =
     \<lparr> file_part = Some \<lparr> originalname = ''notes.txt'', mimetype = ''text/plain'',
                          data = ''hello'' \<rparr>,
       text_fields = [],
       uniqueSuffix = ''1722699000000-43'' \<rparr>"

section \<open>Option resolution\<close>

lemma resolve_object:
  "resolve (JObj kvs) =
     Inr \<lparr> render_options.format = with_default (map_of kvs ''format'') (JStr ''A4''),
           orientation = with_default (map_of kvs ''orientation'') (JStr ''portrait''),
           render_options.margin = with_default (map_of kvs ''margin'') default_margin,
           render_options.printBackground = with_default (map_of kvs ''printBackground'') (JBool True),
           render_options.scale = with_default (map_of kvs ''scale'') (JNum 1),
           render_options.timeout = with_default (map_of kvs ''timeout'') (JNum 30000) \<rparr>"
  by (simp add: resolve_def)

lemma with_default_simps:
  "with_default None d = d"
  "with_default (Some v) d = v"
  by (simp_all add: with_default_def)

text \<open>
  C1. Resolving an options object never fails, and in the record it yields each of
  \<open>format\<close>, \<open>orientation\<close>, \<open>margin\<close>, \<open>printBackground\<close>, \<open>scale\<close> and \<open>timeout\<close> is
  the caller's value when the object has that field, and otherwise its documented
  default: A4, portrait, 20px on each side, true, 1.0 and 30000.
\<close>

theorem resolve_defaults_and_overrides:
  "\<exists>r. resolve (JObj kvs) = Inr r
     \<and> (map_of kvs ''format'' = None \<longrightarrow> render_options.format r = JStr ''A4'')
     \<and> (map_of kvs ''orientation'' = None \<longrightarrow> orientation r = JStr ''portrait'')
     \<and> (map_of kvs ''margin'' = None \<longrightarrow>
          render_options.margin r =
            JObj [(''top'', JStr ''20px''), (''bottom'', JStr ''20px''),
                  (''left'', JStr ''20px''), (''right'', JStr ''20px'')])
     \<and> (map_of kvs ''printBackground'' = None \<longrightarrow> render_options.printBackground r = JBool True)
     \<and> (map_of kvs ''scale'' = None \<longrightarrow> render_options.scale r = JNum 1)
     \<and> (map_of kvs ''timeout'' = None \<longrightarrow> render_options.timeout r = JNum 30000)
     \<and> (\<forall>v. map_of kvs ''format'' = Some v \<longrightarrow> render_options.format r = v)
     \<and> (\<forall>v. map_of kvs ''orientation'' = Some v \<longrightarrow> orientation r = v)
     \<and> (\<forall>v. map_of kvs ''margin'' = Some v \<longrightarrow> render_options.margin r = v)
     \<and> (\<forall>v. map_of kvs ''printBackground'' = Some v \<longrightarrow> render_options.printBackground r = v)
     \<and> (\<forall>v. map_of kvs ''scale'' = Some v \<longrightarrow> render_options.scale r = v)
     \<and> (\<forall>v. map_of kvs ''timeout'' = Some v \<longrightarrow> render_options.timeout r = v)"
  by (simp add: resolve_object with_default_simps default_margin_def)

theorem resolve_defaults_and_overrides_witness:
  "\<exists>r. resolve (JObj [(''format'', JStr ''Letter''), (''scale'', JNum (4 / 5)), (''timeout'', JNull)]) = Inr r
     \<and> render_options.format r = JStr ''Letter''
     \<and> orientation r = JStr ''portrait''
     \<and> render_options.printBackground r = JBool True
     \<and> render_options.scale r = JNum (4 / 5)
     \<and> render_options.timeout r = JNull"
  using resolve_defaults_and_overrides
          [of "[(''format'', JStr ''Letter''), (''scale'', JNum (4 / 5)), (''timeout'', JNull)]"]
  by auto

lemma resolve_not_null:
  "options \<noteq> JNull \<Longrightarrow> \<exists>r. resolve options = Inr r"
  by (simp add: resolve_def)

lemma resolve_margin:
  "resolve options = Inr r \<Longrightarrow>
     render_options.margin r = with_default (get_prop options ''margin'') default_margin"
  by (auto simp: resolve_def split: if_splits)

lemma resolve_orientation:
  "resolve options = Inr r \<Longrightarrow>
     orientation r = with_default (get_prop options ''orientation'') (JStr ''portrait'')"
  by (auto simp: resolve_def split: if_splits)

text \<open>What the engine instance holds after each \<open>convertHTML\<close> that got past the pattern.\<close>

lemma convertHTML_engine_options:
  "resolve (with_default options (JObj [])) = Inr r \<Longrightarrow>
     current_options (fst (snd (convertHTML x htmlContent options h w))) = Some (pdfOptions r)"
  by (simp add: convertHTML_def create_def setOptions_def closeBrowser_def Let_def
           split: sum.splits option.splits prod.splits)

lemma cli_convertHTML_engine_options:
  "resolve (with_default options (JObj [])) = Inr r \<Longrightarrow>
     current_options (fst (snd (cli_convertHTML x htmlContent outputPdf options h w))) =
       Some (cli_pdfOptions (with_default options (JObj [])) outputPdf r)"
  by (simp add: cli_convertHTML_def create_def setOptions_def closeBrowser_def Let_def
           split: sum.splits option.splits prod.splits)

text \<open>
  C7, as the claim states it, fails: with \<open>margin: { top: '5px' }\<close> the resolved margin is
  that object alone, and its \<open>bottom\<close> is absent rather than 20px.
\<close>

theorem partial_margin_counterexample:
  "resolve (JObj [(''margin'', JObj [(''top'', JStr ''5px'')])]) =
     Inr \<lparr> render_options.format = JStr ''A4'',
           orientation = JStr ''portrait'',
           render_options.margin = JObj [(''top'', JStr ''5px'')],
           render_options.printBackground = JBool True,
           render_options.scale = JNum 1,
           render_options.timeout = JNum 30000 \<rparr>
   \<and> get_prop (JObj [(''top'', JStr ''5px'')]) ''bottom'' = None
   \<and> get_prop (JObj [(''top'', JStr ''5px'')]) ''bottom'' \<noteq> Some (JStr ''20px'')"
  by (simp add: resolve_def with_default_def)

text \<open>
  C7, amended. The margin is defaulted as a whole: when the caller's options have no
  \<open>margin\<close>, all four sides are 20px; when they have one, that value is what the engine
  receives, unchanged, so a side it does not name is absent there too.
\<close>

theorem margin_replaced_as_a_whole:
  assumes "resolve options = Inr r"
  shows "(get_prop options ''margin'' = None \<longrightarrow>
            (\<forall>side \<in> {''top'', ''bottom'', ''left'', ''right''}.
               get_prop (pdf_options.margin (pdfOptions r)) side = Some (JStr ''20px'')))
       \<and> (\<forall>m. get_prop options ''margin'' = Some m \<longrightarrow>
            render_options.margin r = m \<and> pdf_options.margin (pdfOptions r) = m
            \<and> (\<forall>side. get_prop m side = None \<longrightarrow>
                  get_prop (pdf_options.margin (pdfOptions r)) side = None))"
  using resolve_margin [OF assms]
  by (auto simp: pdfOptions_def with_default_def default_margin_def)

theorem margin_replaced_as_a_whole_witness:
  "\<exists>r. resolve (JObj [(''margin'', JObj [(''top'', JStr ''5px'')])]) = Inr r
     \<and> pdf_options.margin (pdfOptions r) = JObj [(''top'', JStr ''5px'')]
     \<and> get_prop (pdf_options.margin (pdfOptions r)) ''left'' = None"
proof -
  obtain r where r: "resolve (JObj [(''margin'', JObj [(''top'', JStr ''5px'')])]) = Inr r"
    using resolve_not_null [of "JObj [(''margin'', JObj [(''top'', JStr ''5px'')])]"] by auto
  from margin_replaced_as_a_whole [OF r]
  have "pdf_options.margin (pdfOptions r) = JObj [(''top'', JStr ''5px'')]
        \<and> get_prop (pdf_options.margin (pdfOptions r)) ''left'' = None"
    by simp
  with r show ?thesis by blast
qed

text \<open>
  C10. Whenever the options are not \<open>null\<close>, both converters hand the engine a
  \<open>landscape\<close> flag that is true exactly when the caller's \<open>orientation\<close> is the string
  \<open>landscape\<close>; a missing field, another spelling or a value of another type resolves
  without error and gives false.
\<close>

theorem landscape_iff_exact_string:
  assumes "options \<noteq> Some JNull"
  shows "(\<exists>po. current_options (fst (snd (convertHTML x htmlContent options h w))) = Some po
            \<and> landscape po =
                (get_prop (with_default options (JObj [])) ''orientation'' = Some (JStr ''landscape'')))
       \<and> (\<exists>po. current_options (fst (snd (cli_convertHTML x htmlContent outputPdf options h w))) = Some po
            \<and> landscape po =
                (get_prop (with_default options (JObj [])) ''orientation'' = Some (JStr ''landscape'')))"
proof -
  from assms have "with_default options (JObj []) \<noteq> JNull"
    by (cases options) (simp_all add: with_default_def)
  then obtain r where r: "resolve (with_default options (JObj [])) = Inr r"
    using resolve_not_null by blast
  have "(orientation r = JStr ''landscape'') =
          (get_prop (with_default options (JObj [])) ''orientation'' = Some (JStr ''landscape''))"
    using resolve_orientation [OF r]
    by (cases "get_prop (with_default options (JObj [])) ''orientation''")
       (simp_all add: with_default_def)
  then show ?thesis
    using convertHTML_engine_options [OF r] cli_convertHTML_engine_options [OF r]
    by (simp add: pdfOptions_def cli_pdfOptions_def)
qed

theorem landscape_iff_exact_string_witness:
  "Some (JObj [(''orientation'', JStr ''Landscape'')]) \<noteq> Some JNull
   \<and> (\<exists>po. current_options (fst (snd (convertHTML printing (JStr ''<p>x</p>'')
              (Some (JObj [(''orientation'', JStr ''Landscape'')])) new_HTMLToPDFConverter empty_world)))
            = Some po \<and> \<not> landscape po)"
  using landscape_iff_exact_string
          [of "Some (JObj [(''orientation'', JStr ''Landscape'')])" printing "JStr ''<p>x</p>''"
              new_HTMLToPDFConverter empty_world]
  by (simp add: with_default_def)

section \<open>The options endpoint\<close>

text \<open>
  C8. \<open>GET /api/options\<close> leaves the file system and the engine instances as they were
  and answers with the eleven format names, the two orientations, and a
  \<open>defaultOptions\<close> object that holds every field at its documented default, so that
  using it as the options of a conversion resolves to the same record as giving none.
\<close>

theorem get_options_exact:
  "snd (get_options w) = w
   \<and> status (fst (get_options w)) = 200
   \<and> (\<exists>reply dflt.
        payload (fst (get_options w)) = Json reply
        \<and> get_prop reply ''formats'' =
            Some (JArr [JStr ''A4'', JStr ''Letter'', JStr ''Legal'', JStr ''Tabloid'',
                        JStr ''Ledger'', JStr ''A0'', JStr ''A1'', JStr ''A2'', JStr ''A3'',
                        JStr ''A5'', JStr ''A6''])
        \<and> get_prop reply ''orientations'' = Some (JArr [JStr ''portrait'', JStr ''landscape''])
        \<and> get_prop reply ''defaultOptions'' = Some dflt
        \<and> get_prop dflt ''format'' = Some (JStr ''A4'')
        \<and> get_prop dflt ''orientation'' = Some (JStr ''portrait'')
        \<and> get_prop dflt ''margin'' =
            Some (JObj [(''top'', JStr ''20px''), (''bottom'', JStr ''20px''),
                        (''left'', JStr ''20px''), (''right'', JStr ''20px'')])
        \<and> get_prop dflt ''printBackground'' = Some (JBool True)
        \<and> get_prop dflt ''scale'' = Some (JNum 1)
        \<and> get_prop dflt ''timeout'' = Some (JNum 30000)
        \<and> resolve dflt = resolve (JObj []))"
  by (simp add: get_options_def resolve_def with_default_def default_margin_def)

section \<open>A missing input file on the command line\<close>

text \<open>
  C9. When nothing exists at the input path, \<open>convertFromFile\<close> fails with the
  \<open>HTML file '...' not found!\<close> error of its own existence check (not with the error a
  read would raise), and it leaves the file system and the engine instance exactly as
  they were: no directory made, no \<open>create\<close> call, no browser started.
\<close>

theorem convertFromFile_not_found:
  assumes "\<not> pathExists htmlFile w"
  shows "convertFromFile x htmlFile outputPdf options h w =
           (Inl (Error (''HTML file '' @ [CHR 0x27] @ htmlFile @ [CHR 0x27] @ '' not found!'')), h, w)"
  using assms by (simp add: convertFromFile_def)

theorem convertFromFile_not_found_witness:
  "\<not> pathExists ''missing.html'' empty_world
   \<and> convertFromFile printing ''missing.html'' ''out/a.pdf'' None new_HTMLToPDFConverter empty_world =
       (Inl (Error (''HTML file '' @ [CHR 0x27] @ ''missing.html'' @ [CHR 0x27] @ '' not found!'')),
        new_HTMLToPDFConverter, empty_world)"
proof -
  have absent: "\<not> pathExists ''missing.html'' empty_world"
    by (simp add: pathExists_def empty_world_def)
  from convertFromFile_not_found [OF absent] absent show ?thesis by blast
qed

section \<open>Requests without their required field\<close>

text \<open>
  C6, as the claim states it, fails: a request to the string route whose body is the
  JSON \<open>null\<close> has no \<open>html\<close>, and it is answered with status 500, not 400.
\<close>

theorem null_body_counterexample:
  "get_prop JNull ''html'' = None
   \<and> status (fst (convert_string printing (Some JNull) empty_world)) = 500
   \<and> status (fst (convert_string printing (Some JNull) empty_world)) \<noteq> 400"
  by (simp add: convert_string_def json_error_def)

text \<open>
  C6, amended. When \<open>req.body\<close> is there and is not \<open>null\<close>, and it has no \<open>html\<close> or
  has the empty string there, the string route answers status 400 with the JSON body
  \<open>{ error: 'HTML content is required' }\<close>; likewise for \<open>url\<close> on the URL route, with
  \<open>{ error: 'URL is required' }\<close>. When \<open>req.body\<close> is \<open>undefined\<close> or \<open>null\<close>, both
  routes answer status 500 with a JSON \<open>error\<close> body. In all these cases no converter
  is made: the engine instances and the file system are as before.
\<close>

theorem missing_field_reply:
  "(body = Some b \<and> b \<noteq> JNull
      \<and> (get_prop b ''html'' = None \<or> get_prop b ''html'' = Some (JStr '''')) \<longrightarrow>
        convert_string x body w =
          (\<lparr> status = 400, headers = [],
              payload = Json (JObj [(''error'', JStr ''HTML content is required'')]) \<rparr>, w))
   \<and> (body = Some b \<and> b \<noteq> JNull
      \<and> (get_prop b ''url'' = None \<or> get_prop b ''url'' = Some (JStr '''')) \<longrightarrow>
        convert_url x body w =
          (\<lparr> status = 400, headers = [],
              payload = Json (JObj [(''error'', JStr ''URL is required'')]) \<rparr>, w))
   \<and> (body = None \<or> body = Some JNull \<longrightarrow>
        (\<exists>m. convert_string x body w =
               (\<lparr> status = 500, headers = [], payload = Json (JObj [(''error'', JStr m)]) \<rparr>, w))
        \<and> (\<exists>m. convert_url x body w =
               (\<lparr> status = 500, headers = [], payload = Json (JObj [(''error'', JStr m)]) \<rparr>, w)))"
  by (auto simp: convert_string_def convert_url_def json_error_def)

theorem missing_field_reply_witness:
  "JObj [] \<noteq> JNull
   \<and> get_prop (JObj []) ''html'' = None
   \<and> convert_string printing (Some (JObj [])) empty_world =
       (\<lparr> status = 400, headers = [],
           payload = Json (JObj [(''error'', JStr ''HTML content is required'')]) \<rparr>, empty_world)
   \<and> JObj [(''url'', JStr '''')] \<noteq> JNull
   \<and> get_prop (JObj [(''url'', JStr '''')]) ''url'' = Some (JStr '''')
   \<and> convert_url printing (Some (JObj [(''url'', JStr '''')])) empty_world =
       (\<lparr> status = 400, headers = [],
           payload = Json (JObj [(''error'', JStr ''URL is required'')]) \<rparr>, empty_world)
   \<and> status (fst (convert_string printing None empty_world)) = 500
   \<and> snd (convert_string printing None empty_world) = empty_world"
proof -
  from missing_field_reply [of None _ printing empty_world]
  have "status (fst (convert_string printing None empty_world)) = 500
        \<and> snd (convert_string printing None empty_world) = empty_world"
    by auto
  with missing_field_reply [of "Some (JObj [])" "JObj []" printing empty_world]
       missing_field_reply [of "Some (JObj [(''url'', JStr '''')])" "JObj [(''url'', JStr '''')]"
                               printing empty_world]
  show ?thesis by simp
qed

section \<open>The browser is closed when a conversion ends\<close>

text \<open>The model's \<open>create\<close> does leave a browser running, whatever it returns.\<close>

lemma create_opens_browser:
  "browser_open (fst (snd (create x htmlContent h w)))"
  by (simp add: create_def Let_def split: sum.splits option.splits)

lemma create_counts:
  "create_calls (fst (snd (create x htmlContent h w))) = Suc (create_calls h)"
  by (simp add: create_def Let_def split: sum.splits option.splits)

lemma convertHTML_closes:
  assumes "options \<noteq> Some JNull \<or> \<not> browser_open h"
  shows "\<not> browser_open (fst (snd (convertHTML x htmlContent options h w)))"
proof (cases "resolve (with_default options (JObj []))")
  case (Inl e)
  then have "options = Some JNull"
    by (cases options) (auto simp: resolve_def with_default_def split: if_splits)
  with assms Inl show ?thesis by (simp add: convertHTML_def)
next
  case (Inr r)
  then show ?thesis
    by (simp add: convertHTML_def closeBrowser_def split: sum.splits prod.splits)
qed

lemma cli_convertHTML_closes:
  assumes "options \<noteq> Some JNull \<or> \<not> browser_open h"
  shows "\<not> browser_open (fst (snd (cli_convertHTML x htmlContent outputPdf options h w)))"
proof (cases "resolve (with_default options (JObj []))")
  case (Inl e)
  then have "options = Some JNull"
    by (cases options) (auto simp: resolve_def with_default_def split: if_splits)
  with assms Inl show ?thesis by (simp add: cli_convertHTML_def)
next
  case (Inr r)
  then show ?thesis
    by (simp add: cli_convertHTML_def closeBrowser_def split: sum.splits prod.splits)
qed

lemma convertFromFile_closes:
  assumes "\<not> browser_open h"
  shows "\<not> browser_open (fst (snd (convertFromFile x htmlFile outputPdf options h w)))"
  using assms cli_convertHTML_closes [of options h]
  by (simp add: convertFromFile_def split: sum.splits)

lemma convertFromURL_closes:
  assumes "\<not> browser_open h"
  shows "\<not> browser_open (fst (snd (convertFromURL x url outputPdf options h w)))"
  using assms cli_convertHTML_closes [of options h]
  by (simp add: convertFromURL_def split: sum.splits)

lemma convertFromString_closes:
  assumes "\<not> browser_open h"
  shows "\<not> browser_open (fst (snd (convertFromString x htmlString outputPdf options h w)))"
  using assms cli_convertHTML_closes [of options h]
  by (simp add: convertFromString_def split: sum.splits)

lemma new_converter_closed:
  "\<not> browser_open new_HTMLToPDFConverter"
  by (simp add: new_HTMLToPDFConverter_def new_PuppeteerHTMLPDF_def)

text \<open>Every route leaves the earlier engine instances alone and adds at most its own.\<close>

lemma convertHTML_world:
  "snd (snd (convertHTML x htmlContent options h w)) = w"
  by (simp add: convertHTML_def create_def setOptions_def pdfOptions_def Let_def
           split: sum.splits option.splits prod.splits)

lemma convert_string_sessions:
  "sessions (snd (convert_string x body w)) = sessions w
   \<or> (\<exists>v options. sessions (snd (convert_string x body w)) =
         sessions w @ [fst (snd (convertHTML x v options new_HTMLToPDFConverter w))])"
proof (cases "snd (convert_string x body w) = w")
  case True
  then show ?thesis by simp
next
  case False
  then obtain b v where v: "body = Some b" "get_prop b ''html'' = Some v" "truthy v" "b \<noteq> JNull"
    by (auto simp: convert_string_def Let_def split: option.splits if_splits)
  let ?o = "Some (with_default (get_prop b ''options'') (JObj []))"
  obtain res h' w' where c: "convertHTML x v ?o new_HTMLToPDFConverter w = (res, h', w')"
    by (cases "convertHTML x v ?o new_HTMLToPDFConverter w") blast
  with convertHTML_world [of x v ?o new_HTMLToPDFConverter w] have "w' = w" by simp
  with v c have "sessions (snd (convert_string x body w)) = sessions w @ [h']"
    by (simp add: convert_string_def Let_def split: sum.splits)
  with c show ?thesis by (metis fst_conv snd_conv)
qed

lemma convert_url_sessions:
  "sessions (snd (convert_url x body w)) = sessions w
   \<or> (\<exists>v options. sessions (snd (convert_url x body w)) =
         sessions w @ [fst (snd (convertHTML x v options new_HTMLToPDFConverter w))])"
proof (cases "snd (convert_url x body w) = w")
  case True
  then show ?thesis by simp
next
  case False
  then obtain b v where v: "body = Some b" "get_prop b ''url'' = Some v" "truthy v" "b \<noteq> JNull"
    by (auto simp: convert_url_def Let_def split: option.splits if_splits)
  let ?o = "Some (with_default (get_prop b ''options'') (JObj []))"
  obtain res h' w' where c: "convertHTML x v ?o new_HTMLToPDFConverter w = (res, h', w')"
    by (cases "convertHTML x v ?o new_HTMLToPDFConverter w") blast
  with convertHTML_world [of x v ?o new_HTMLToPDFConverter w] have "w' = w" by simp
  with v c have "sessions (snd (convert_url x body w)) = sessions w @ [h']"
    by (simp add: convert_url_def Let_def split: sum.splits)
  with c show ?thesis by (metis fst_conv snd_conv)
qed

lemma convert_file_sessions:
  "sessions (snd (convert_file x stored body w)) = sessions w
   \<or> (\<exists>v options. sessions (snd (convert_file x stored body w)) =
         sessions w @ [fst (snd (convertHTML x v options new_HTMLToPDFConverter w))])"
proof (cases stored)
  case None
  then show ?thesis by (simp add: convert_file_def)
next
  case (Some p)
  show ?thesis
  proof (cases "parse_options x body")
    case (Inl e)
    with Some show ?thesis by (simp add: convert_file_def)
  next
    case opts: (Inr options)
    show ?thesis
    proof (cases "readFile x p w")
      case (Inl e)
      with Some opts show ?thesis by (simp add: convert_file_def)
    next
      case (Inr htmlContent)
      obtain res h' w' where
        c: "convertHTML x (JStr htmlContent) (Some options) new_HTMLToPDFConverter w = (res, h', w')"
        by (cases "convertHTML x (JStr htmlContent) (Some options) new_HTMLToPDFConverter w") blast
      with convertHTML_world [of x "JStr htmlContent" "Some options" new_HTMLToPDFConverter w]
      have "w' = w" by simp
      with Some opts Inr c have "sessions (snd (convert_file x stored body w)) = sessions w @ [h']"
        by (simp add: convert_file_def remove_def split: sum.splits)
      with c show ?thesis by (metis fst_conv snd_conv)
    qed
  qed
qed

lemma upload_single_sessions:
  "sessions (snd (upload_single x req w)) = sessions w"
  by (simp add: upload_single_def split: option.splits sum.splits)

lemma post_convert_file_sessions:
  "sessions (snd (post_convert_file x req w)) = sessions w
   \<or> (\<exists>v options w1. sessions (snd (post_convert_file x req w)) =
         sessions w @ [fst (snd (convertHTML x v options new_HTMLToPDFConverter w1))])"
proof (cases "upload_single x req w")
  case (Pair res w1)
  with upload_single_sessions [of x req w] have s: "sessions w1 = sessions w" by simp
  show ?thesis
  proof (cases res)
    case (Inl e)
    with Pair s show ?thesis by (simp add: post_convert_file_def)
  next
    case (Inr stored)
    with Pair have "post_convert_file x req w = convert_file x stored (text_fields req) w1"
      by (simp add: post_convert_file_def)
    with convert_file_sessions [of x stored "text_fields req" w1] s show ?thesis
      by metis
  qed
qed

text \<open>
  C3. A \<open>convertHTML\<close> that reaches the engine returns, on both converters, with the
  browser of its engine instance closed, whether the engine gave a document or threw
  (a timeout included); the one exit that comes before the engine is touched, the
  pattern failing on \<open>null\<close> options, leaves a closed browser closed. So the three
  command-line entry points started on a fresh converter end with its browser closed,
  and after any request to the three conversion routes no engine instance has a browser
  running, provided none had before.
\<close>

theorem browser_closed_on_every_exit:
  "(options \<noteq> Some JNull \<or> \<not> browser_open h \<longrightarrow>
      \<not> browser_open (fst (snd (convertHTML x htmlContent options h w)))
      \<and> \<not> browser_open (fst (snd (cli_convertHTML x htmlContent outputPdf options h w))))
   \<and> (\<not> browser_open h \<longrightarrow>
      \<not> browser_open (fst (snd (convertFromFile x source outputPdf options h w)))
      \<and> \<not> browser_open (fst (snd (convertFromURL x source outputPdf options h w)))
      \<and> \<not> browser_open (fst (snd (convertFromString x source outputPdf options h w))))
   \<and> ((\<forall>s \<in> set (sessions w). \<not> browser_open s) \<longrightarrow>
      (\<forall>s \<in> set (sessions (snd (convert_string x body w))). \<not> browser_open s)
      \<and> (\<forall>s \<in> set (sessions (snd (convert_url x body w))). \<not> browser_open s)
      \<and> (\<forall>s \<in> set (sessions (snd (post_convert_file x req w))). \<not> browser_open s))"
proof (intro conjI impI)
  assume a: "options \<noteq> Some JNull \<or> \<not> browser_open h"
  show "\<not> browser_open (fst (snd (convertHTML x htmlContent options h w)))"
    using a by (rule convertHTML_closes)
  show "\<not> browser_open (fst (snd (cli_convertHTML x htmlContent outputPdf options h w)))"
    using a by (rule cli_convertHTML_closes)
next
  assume "\<not> browser_open h"
  then show "\<not> browser_open (fst (snd (convertFromFile x source outputPdf options h w)))"
    by (rule convertFromFile_closes)
next
  assume "\<not> browser_open h"
  then show "\<not> browser_open (fst (snd (convertFromURL x source outputPdf options h w)))"
    by (rule convertFromURL_closes)
next
  assume "\<not> browser_open h"
  then show "\<not> browser_open (fst (snd (convertFromString x source outputPdf options h w)))"
    by (rule convertFromString_closes)
next
  assume inv: "\<forall>s \<in> set (sessions w). \<not> browser_open s"
  have fresh: "\<not> browser_open (fst (snd (convertHTML x v opts new_HTMLToPDFConverter w1)))"
    for v opts w1
    by (rule convertHTML_closes) (simp add: new_converter_closed)
  show "\<forall>s \<in> set (sessions (snd (convert_string x body w))). \<not> browser_open s"
    using convert_string_sessions [of x body w] inv fresh by auto
  show "\<forall>s \<in> set (sessions (snd (convert_url x body w))). \<not> browser_open s"
    using convert_url_sessions [of x body w] inv fresh by auto
  show "\<forall>s \<in> set (sessions (snd (post_convert_file x req w))). \<not> browser_open s"
    using post_convert_file_sessions [of x req w] inv fresh by auto
qed

theorem browser_closed_on_every_exit_witness:
  "\<not> browser_open new_HTMLToPDFConverter
   \<and> sessions empty_world = []
   \<and> fst (convertHTML timing_out (JStr ''<p>x</p>'') None new_HTMLToPDFConverter empty_world) =
       Inl (Error ''PDF creation failed: Navigation timeout of 30000 ms exceeded'')
   \<and> create_calls (fst (snd (convertHTML timing_out (JStr ''<p>x</p>'') None
                                 new_HTMLToPDFConverter empty_world))) = 1
   \<and> \<not> browser_open (fst (snd (convertHTML timing_out (JStr ''<p>x</p>'') None
                                   new_HTMLToPDFConverter empty_world)))
   \<and> map browser_open (sessions (snd (convert_string timing_out
                                        (Some (JObj [(''html'', JStr ''<p>x</p>'')]))
                                        empty_world))) = [False]"
proof -
  let ?after = "sessions (snd (convert_string timing_out (Some (JObj [(''html'', JStr ''<p>x</p>'')]))
                                 empty_world))"
  have closed: "\<not> browser_open new_HTMLToPDFConverter"
    by (rule new_converter_closed)
  have none: "sessions empty_world = []"
    by (simp add: empty_world_def)
  have run: "fst (convertHTML timing_out (JStr ''<p>x</p>'') None new_HTMLToPDFConverter empty_world) =
               Inl (Error ''PDF creation failed: Navigation timeout of 30000 ms exceeded'')
             \<and> create_calls (fst (snd (convertHTML timing_out (JStr ''<p>x</p>'') None
                                          new_HTMLToPDFConverter empty_world))) = 1"
    by (simp add: convertHTML_def resolve_def with_default_def create_def setOptions_def
                  closeBrowser_def timing_out_def printing_def new_HTMLToPDFConverter_def
                  new_PuppeteerHTMLPDF_def Let_def)
  have one: "length ?after = 1"
    by (simp add: convert_string_def convertHTML_def resolve_def with_default_def create_def
                  setOptions_def closeBrowser_def timing_out_def printing_def empty_world_def
                  Let_def)
  note all = browser_closed_on_every_exit
         [of None new_HTMLToPDFConverter timing_out "JStr ''<p>x</p>''" empty_world _ _
             "Some (JObj [(''html'', JStr ''<p>x</p>'')])"]
  from all none have "\<forall>s \<in> set ?after. \<not> browser_open s"
    by simp
  with one have "map browser_open ?after = [False]"
    by (cases ?after) auto
  with all closed none run show ?thesis by blast
qed

section \<open>The uploaded file after the response\<close>

lemma upload_removed_after_success:
  assumes "upload_single x req w = (Inr (Some p), w1)"
      and "status (fst (post_convert_file x req w)) = 200"
  shows "disk (snd (post_convert_file x req w)) p = None"
proof -
  have pc: "post_convert_file x req w = convert_file x (Some p) (text_fields req) w1"
    using assms(1) by (simp add: post_convert_file_def)
  show ?thesis
    using assms(2) unfolding pc
    by (auto simp: convert_file_def json_error_def send_pdf_def remove_def
             split: sum.splits prod.splits)
qed

lemma upload_remains_after_failed_render:
  assumes "upload_single x req w = (Inr (Some p), w1)"
      and "parse_options x (text_fields req) = Inr options"
      and "readFile x p w1 = Inr htmlContent"
      and "fst (convertHTML x (JStr htmlContent) (Some options) new_HTMLToPDFConverter w1) = Inl e"
  shows "fst (post_convert_file x req w) = json_error 500 (message e)
         \<and> disk (snd (post_convert_file x req w)) p = disk w1 p"
proof -
  have pc: "post_convert_file x req w = convert_file x (Some p) (text_fields req) w1"
    using assms(1) by (simp add: post_convert_file_def)
  obtain h' w' where
    c: "convertHTML x (JStr htmlContent) (Some options) new_HTMLToPDFConverter w1 = (Inl e, h', w')"
    using assms(4)
    by (cases "convertHTML x (JStr htmlContent) (Some options) new_HTMLToPDFConverter w1") auto
  with convertHTML_world [of x "JStr htmlContent" "Some options" new_HTMLToPDFConverter w1]
  have "w' = w1" by simp
  with c assms(2,3) show ?thesis
    unfolding pc by (simp add: convert_file_def)
qed

text \<open>
  C2 does not hold of the code. An accepted \<open>page.html\<close> whose render times out is
  answered with status 500 while the stored copy is still on disk: \<open>fs.remove\<close> is only
  reached after a successful \<open>convertHTML\<close>.
\<close>

theorem upload_kept_when_render_fails:
  "fst (post_convert_file timing_out html_upload empty_world) =
     json_error 500 ''PDF creation failed: Navigation timeout of 30000 ms exceeded''
   \<and> disk (snd (post_convert_file timing_out html_upload empty_world))
        ''/app/uploads/htmlFile-1722699000000-42.html'' = Some ''<h1>Hi</h1>''"
  by (simp add: post_convert_file_def upload_single_def fileFilter_def stored_path_def
                html_upload_def convert_file_def parse_options_def readFile_def
                convertHTML_def resolve_def with_default_def create_def setOptions_def
                closeBrowser_def timing_out_def printing_def empty_world_def Let_def)

section \<open>Uploads the filter refuses\<close>

text \<open>
  C4, as the claim states it, fails: a \<open>notes.txt\<close> of type \<open>text/plain\<close> is answered
  with status 500, not 400, because the filter's error reaches the error-handling
  middleware, which always answers 500.
\<close>

theorem refused_upload_counterexample:
  "status (fst (post_convert_file printing text_upload empty_world)) = 500
   \<and> status (fst (post_convert_file printing text_upload empty_world)) \<noteq> 400"
  by (simp add: post_convert_file_def upload_single_def fileFilter_def endsWith_def
                text_upload_def error_middleware_def json_error_def)

text \<open>
  C4, amended. An upload whose type is not \<open>text/html\<close> and whose name does not end in
  \<open>.html\<close> is answered with status 500 and the JSON body
  \<open>{ error: 'Only HTML files are allowed!' }\<close>; nothing is stored for it, no directory or
  file appears, and no converter is made.
\<close>

theorem refused_upload_is_500:
  assumes "file_part req = Some file"
      and "mimetype file \<noteq> ''text/html''"
      and "\<not> endsWith (originalname file) ''.html''"
  shows "post_convert_file x req w =
           (\<lparr> status = 500, headers = [],
               payload = Json (JObj [(''error'', JStr ''Only HTML files are allowed!'')]) \<rparr>, w)"
  using assms
  by (simp add: post_convert_file_def upload_single_def fileFilter_def error_middleware_def
                json_error_def)

theorem refused_upload_is_500_witness:
  "file_part text_upload =
     Some \<lparr> originalname = ''notes.txt'', mimetype = ''text/plain'', data = ''hello'' \<rparr>
   \<and> ''text/plain'' \<noteq> ''text/html''
   \<and> \<not> endsWith ''notes.txt'' ''.html''
   \<and> post_convert_file printing text_upload empty_world =
       (\<lparr> status = 500, headers = [],
           payload = Json (JObj [(''error'', JStr ''Only HTML files are allowed!'')]) \<rparr>,
        empty_world)"
proof -
  have f: "file_part text_upload =
             Some \<lparr> originalname = ''notes.txt'', mimetype = ''text/plain'', data = ''hello'' \<rparr>"
    by (simp add: text_upload_def)
  have m: "mimetype \<lparr> originalname = ''notes.txt'', mimetype = ''text/plain'', data = ''hello'' \<rparr>
             \<noteq> ''text/html''"
    by simp
  have n: "\<not> endsWith (originalname \<lparr> originalname = ''notes.txt'', mimetype = ''text/plain'',
                                       data = ''hello'' \<rparr>) ''.html''"
    by (simp add: endsWith_def)
  from refused_upload_is_500 [OF f m n, of printing empty_world] f m n
  show ?thesis by simp
qed

section \<open>What a conversion route answers\<close>

text \<open>
  One \<open>convertHTML\<close> on a fresh converter: when the options resolve, \<open>create\<close> is
  called once with them and the content given, and its outcome is the outcome.
\<close>

lemma convertHTML_fresh_resolved:
  assumes "resolve opts = Inr r"
  shows "convertHTML x v (Some opts) new_HTMLToPDFConverter w =
           ((case render x (Some (pdfOptions r)) v of
               Inr pdf \<Rightarrow> Inr pdf
             | Inl e \<Rightarrow> Inl (Error (''PDF creation failed: '' @ message e))),
            \<lparr> current_options = Some (pdfOptions r), browser_open = False, create_calls = 1 \<rparr>,
            w)"
  using assms
  by (simp add: convertHTML_def with_default_def create_def setOptions_def closeBrowser_def
                pdfOptions_def new_HTMLToPDFConverter_def new_PuppeteerHTMLPDF_def Let_def
           split: sum.splits)

lemma convertHTML_fresh_unresolved:
  assumes "resolve opts = Inl e"
  shows "convertHTML x v (Some opts) new_HTMLToPDFConverter w = (Inl e, new_HTMLToPDFConverter, w)"
  using assms by (simp add: convertHTML_def with_default_def)

lemma status_simps:
  "status (json_error code m) = code"
  "status (send_pdf pdf) = 200"
  by (simp_all add: json_error_def send_pdf_def)

lemma convert_string_valid:
  assumes "body = Some b" "b \<noteq> JNull" "get_prop b ''html'' = Some v" "truthy v"
  shows "convert_string x body w =
           (case convertHTML x v (Some (with_default (get_prop b ''options'') (JObj [])))
                   new_HTMLToPDFConverter w of
              (Inr pdfBuffer, h, w') \<Rightarrow> (send_pdf pdfBuffer, w'\<lparr> sessions := sessions w' @ [h] \<rparr>)
            | (Inl e, h, w') \<Rightarrow> (json_error 500 (message e), w'\<lparr> sessions := sessions w' @ [h] \<rparr>))"
  using assms by (simp add: convert_string_def)

lemma convert_url_valid:
  assumes "body = Some b" "b \<noteq> JNull" "get_prop b ''url'' = Some v" "truthy v"
  shows "convert_url x body w =
           (case convertHTML x v (Some (with_default (get_prop b ''options'') (JObj [])))
                   new_HTMLToPDFConverter w of
              (Inr pdfBuffer, h, w') \<Rightarrow> (send_pdf pdfBuffer, w'\<lparr> sessions := sessions w' @ [h] \<rparr>)
            | (Inl e, h, w') \<Rightarrow> (json_error 500 (message e), w'\<lparr> sessions := sessions w' @ [h] \<rparr>))"
  using assms by (simp add: convert_url_def)

lemma convert_string_400:
  "(status (fst (convert_string x body w)) = 400) =
     (\<exists>b. body = Some b \<and> b \<noteq> JNull \<and> (\<forall>v. get_prop b ''html'' = Some v \<longrightarrow> \<not> truthy v))"
proof (cases "\<exists>b v. body = Some b \<and> b \<noteq> JNull \<and> get_prop b ''html'' = Some v \<and> truthy v")
  case True
  then obtain b v where v: "body = Some b" "b \<noteq> JNull" "get_prop b ''html'' = Some v" "truthy v"
    by blast
  obtain res h' w' where
    "convertHTML x v (Some (with_default (get_prop b ''options'') (JObj [])))
       new_HTMLToPDFConverter w = (res, h', w')"
    by (metis prod_cases3)
  then have "status (fst (convert_string x body w)) \<noteq> 400"
    unfolding convert_string_valid [OF v] by (cases res) (simp_all add: status_simps)
  with v show ?thesis by auto
next
  case False
  then show ?thesis
    by (cases body) (auto simp: convert_string_def status_simps split: option.splits)
qed

lemma convert_url_400:
  "(status (fst (convert_url x body w)) = 400) =
     (\<exists>b. body = Some b \<and> b \<noteq> JNull \<and> (\<forall>v. get_prop b ''url'' = Some v \<longrightarrow> \<not> truthy v))"
proof (cases "\<exists>b v. body = Some b \<and> b \<noteq> JNull \<and> get_prop b ''url'' = Some v \<and> truthy v")
  case True
  then obtain b v where v: "body = Some b" "b \<noteq> JNull" "get_prop b ''url'' = Some v" "truthy v"
    by blast
  obtain res h' w' where
    "convertHTML x v (Some (with_default (get_prop b ''options'') (JObj [])))
       new_HTMLToPDFConverter w = (res, h', w')"
    by (metis prod_cases3)
  then have "status (fst (convert_url x body w)) \<noteq> 400"
    unfolding convert_url_valid [OF v] by (cases res) (simp_all add: status_simps)
  with v show ?thesis by auto
next
  case False
  then show ?thesis
    by (cases body) (auto simp: convert_url_def status_simps split: option.splits)
qed

text \<open>The string route, case by case.\<close>

lemma convert_string_cases:
  "(body = Some b \<and> b \<noteq> JNull \<and> get_prop b ''html'' = Some v \<and> truthy v \<longrightarrow>
      (resolve (with_default (get_prop b ''options'') (JObj [])) = Inr r
         \<and> render x (Some (pdfOptions r)) v = Inr pdf \<longrightarrow>
           convert_string x body w =
             (send_pdf pdf,
              w\<lparr> sessions := sessions w @
                   [\<lparr> current_options = Some (pdfOptions r), browser_open = False,
                      create_calls = 1 \<rparr>] \<rparr>))
      \<and> (resolve (with_default (get_prop b ''options'') (JObj [])) = Inr r
         \<and> render x (Some (pdfOptions r)) v = Inl e \<longrightarrow>
           convert_string x body w =
             (json_error 500 (''PDF creation failed: '' @ message e),
              w\<lparr> sessions := sessions w @
                   [\<lparr> current_options = Some (pdfOptions r), browser_open = False,
                      create_calls = 1 \<rparr>] \<rparr>))
      \<and> (get_prop b ''options'' = Some JNull \<longrightarrow>
           (\<exists>m. convert_string x body w =
                  (json_error 500 m, w\<lparr> sessions := sessions w @ [new_HTMLToPDFConverter] \<rparr>))))
   \<and> (status (fst (convert_string x body w)) = 400 \<longrightarrow>
        convert_string x body w = (json_error 400 ''HTML content is required'', w))
   \<and> (body = None \<or> body = Some JNull \<longrightarrow>
        (\<exists>m. convert_string x body w = (json_error 500 m, w)))"
proof (intro conjI impI)
  assume v: "body = Some b \<and> b \<noteq> JNull \<and> get_prop b ''html'' = Some v \<and> truthy v"
  then have eq: "convert_string x body w =
           (case convertHTML x v (Some (with_default (get_prop b ''options'') (JObj [])))
                   new_HTMLToPDFConverter w of
              (Inr pdfBuffer, h, w') \<Rightarrow> (send_pdf pdfBuffer, w'\<lparr> sessions := sessions w' @ [h] \<rparr>)
            | (Inl e, h, w') \<Rightarrow> (json_error 500 (message e), w'\<lparr> sessions := sessions w' @ [h] \<rparr>))"
    by (intro convert_string_valid) simp_all
  {
    assume "resolve (with_default (get_prop b ''options'') (JObj [])) = Inr r
            \<and> render x (Some (pdfOptions r)) v = Inr pdf"
    then show "convert_string x body w =
             (send_pdf pdf,
              w\<lparr> sessions := sessions w @
                   [\<lparr> current_options = Some (pdfOptions r), browser_open = False,
                      create_calls = 1 \<rparr>] \<rparr>)"
      unfolding eq by (simp add: convertHTML_fresh_resolved)
  }
  {
    assume "resolve (with_default (get_prop b ''options'') (JObj [])) = Inr r
            \<and> render x (Some (pdfOptions r)) v = Inl e"
    then show "convert_string x body w =
             (json_error 500 (''PDF creation failed: '' @ message e),
              w\<lparr> sessions := sessions w @
                   [\<lparr> current_options = Some (pdfOptions r), browser_open = False,
                      create_calls = 1 \<rparr>] \<rparr>)"
      unfolding eq by (simp add: convertHTML_fresh_resolved)
  }
  {
    assume "get_prop b ''options'' = Some JNull"
    then have "resolve (with_default (get_prop b ''options'') (JObj [])) =
                 Inl (cannot_read_null ''format'')"
      by (simp add: with_default_def resolve_def)
    then show "\<exists>m. convert_string x body w =
                  (json_error 500 m, w\<lparr> sessions := sessions w @ [new_HTMLToPDFConverter] \<rparr>)"
      unfolding eq by (auto simp: convertHTML_fresh_unresolved)
  }
next
  assume "status (fst (convert_string x body w)) = 400"
  then obtain b where b: "body = Some b" "b \<noteq> JNull" "\<forall>v. get_prop b ''html'' = Some v \<longrightarrow> \<not> truthy v"
    unfolding convert_string_400 by blast
  then show "convert_string x body w = (json_error 400 ''HTML content is required'', w)"
    by (cases "get_prop b ''html''") (simp_all add: convert_string_def)
next
  assume "body = None \<or> body = Some JNull"
  then show "\<exists>m. convert_string x body w = (json_error 500 m, w)"
    by (auto simp: convert_string_def)
qed

text \<open>The URL route, case by case.\<close>

lemma convert_url_cases:
  "(body = Some b \<and> b \<noteq> JNull \<and> get_prop b ''url'' = Some v \<and> truthy v \<longrightarrow>
      (resolve (with_default (get_prop b ''options'') (JObj [])) = Inr r
         \<and> render x (Some (pdfOptions r)) v = Inr pdf \<longrightarrow>
           convert_url x body w =
             (send_pdf pdf,
              w\<lparr> sessions := sessions w @
                   [\<lparr> current_options = Some (pdfOptions r), browser_open = False,
                      create_calls = 1 \<rparr>] \<rparr>))
      \<and> (resolve (with_default (get_prop b ''options'') (JObj [])) = Inr r
         \<and> render x (Some (pdfOptions r)) v = Inl e \<longrightarrow>
           convert_url x body w =
             (json_error 500 (''PDF creation failed: '' @ message e),
              w\<lparr> sessions := sessions w @
                   [\<lparr> current_options = Some (pdfOptions r), browser_open = False,
                      create_calls = 1 \<rparr>] \<rparr>))
      \<and> (get_prop b ''options'' = Some JNull \<longrightarrow>
           (\<exists>m. convert_url x body w =
                  (json_error 500 m, w\<lparr> sessions := sessions w @ [new_HTMLToPDFConverter] \<rparr>))))
   \<and> (status (fst (convert_url x body w)) = 400 \<longrightarrow>
        convert_url x body w = (json_error 400 ''URL is required'', w))
   \<and> (body = None \<or> body = Some JNull \<longrightarrow>
        (\<exists>m. convert_url x body w = (json_error 500 m, w)))"
proof (intro conjI impI)
  assume v: "body = Some b \<and> b \<noteq> JNull \<and> get_prop b ''url'' = Some v \<and> truthy v"
  then have eq: "convert_url x body w =
           (case convertHTML x v (Some (with_default (get_prop b ''options'') (JObj [])))
                   new_HTMLToPDFConverter w of
              (Inr pdfBuffer, h, w') \<Rightarrow> (send_pdf pdfBuffer, w'\<lparr> sessions := sessions w' @ [h] \<rparr>)
            | (Inl e, h, w') \<Rightarrow> (json_error 500 (message e), w'\<lparr> sessions := sessions w' @ [h] \<rparr>))"
    by (intro convert_url_valid) simp_all
  {
    assume "resolve (with_default (get_prop b ''options'') (JObj [])) = Inr r
            \<and> render x (Some (pdfOptions r)) v = Inr pdf"
    then show "convert_url x body w =
             (send_pdf pdf,
              w\<lparr> sessions := sessions w @
                   [\<lparr> current_options = Some (pdfOptions r), browser_open = False,
                      create_calls = 1 \<rparr>] \<rparr>)"
      unfolding eq by (simp add: convertHTML_fresh_resolved)
  }
  {
    assume "resolve (with_default (get_prop b ''options'') (JObj [])) = Inr r
            \<and> render x (Some (pdfOptions r)) v = Inl e"
    then show "convert_url x body w =
             (json_error 500 (''PDF creation failed: '' @ message e),
              w\<lparr> sessions := sessions w @
                   [\<lparr> current_options = Some (pdfOptions r), browser_open = False,
                      create_calls = 1 \<rparr>] \<rparr>)"
      unfolding eq by (simp add: convertHTML_fresh_resolved)
  }
  {
    assume "get_prop b ''options'' = Some JNull"
    then have "resolve (with_default (get_prop b ''options'') (JObj [])) =
                 Inl (cannot_read_null ''format'')"
      by (simp add: with_default_def resolve_def)
    then show "\<exists>m. convert_url x body w =
                  (json_error 500 m, w\<lparr> sessions := sessions w @ [new_HTMLToPDFConverter] \<rparr>)"
      unfolding eq by (auto simp: convertHTML_fresh_unresolved)
  }
next
  assume "status (fst (convert_url x body w)) = 400"
  then obtain b where b: "body = Some b" "b \<noteq> JNull" "\<forall>v. get_prop b ''url'' = Some v \<longrightarrow> \<not> truthy v"
    unfolding convert_url_400 by blast
  then show "convert_url x body w = (json_error 400 ''URL is required'', w)"
    by (cases "get_prop b ''url''") (simp_all add: convert_url_def)
next
  assume "body = None \<or> body = Some JNull"
  then show "\<exists>m. convert_url x body w = (json_error 500 m, w)"
    by (auto simp: convert_url_def)
qed

text \<open>The upload route, case by case.\<close>

lemma post_convert_file_accepted:
  assumes "file_part req = Some f" "fileFilter f = Inr True"
  shows "post_convert_file x req w =
           (case parse_options x (text_fields req) of
              Inl e \<Rightarrow> (json_error 500 (message e), snd (upload_single x req w))
            | Inr opts \<Rightarrow>
                (case convertHTML x (JStr (decode_utf8 x (data f))) (Some opts)
                        new_HTMLToPDFConverter (snd (upload_single x req w)) of
                   (Inr pdfBuffer, h, w') \<Rightarrow>
                     (send_pdf pdfBuffer,
                      (remove (stored_path x req) w')\<lparr> sessions := sessions w' @ [h] \<rparr>)
                 | (Inl e, h, w') \<Rightarrow>
                     (json_error 500 (message e), w'\<lparr> sessions := sessions w' @ [h] \<rparr>)))"
  using assms
  by (simp add: post_convert_file_def upload_single_def convert_file_def readFile_def
           split: sum.splits)

lemma post_convert_file_cases:
  "(file_part req = None \<longrightarrow>
      post_convert_file x req w = (json_error 400 ''HTML file is required'', w))
   \<and> ((status (fst (post_convert_file x req w)) = 400) = (file_part req = None))
   \<and> (file_part req = Some f \<and> fileFilter f = Inl e \<longrightarrow>
        post_convert_file x req w = (json_error 500 (message e), w))
   \<and> (file_part req = Some f \<and> fileFilter f = Inr True \<longrightarrow>
        (parse_options x (text_fields req) = Inl e \<longrightarrow>
           fst (post_convert_file x req w) = json_error 500 (message e)
           \<and> sessions (snd (post_convert_file x req w)) = sessions w)
        \<and> (parse_options x (text_fields req) = Inr opts \<and> resolve opts = Inl e \<longrightarrow>
           fst (post_convert_file x req w) = json_error 500 (message e)
           \<and> sessions (snd (post_convert_file x req w)) = sessions w @ [new_HTMLToPDFConverter])
        \<and> (parse_options x (text_fields req) = Inr opts \<and> resolve opts = Inr r
           \<and> render x (Some (pdfOptions r)) (JStr (decode_utf8 x (data f))) = Inr pdf \<longrightarrow>
           fst (post_convert_file x req w) = send_pdf pdf
           \<and> sessions (snd (post_convert_file x req w)) =
               sessions w @ [\<lparr> current_options = Some (pdfOptions r), browser_open = False,
                               create_calls = 1 \<rparr>])
        \<and> (parse_options x (text_fields req) = Inr opts \<and> resolve opts = Inr r
           \<and> render x (Some (pdfOptions r)) (JStr (decode_utf8 x (data f))) = Inl e \<longrightarrow>
           fst (post_convert_file x req w) = json_error 500 (''PDF creation failed: '' @ message e)
           \<and> sessions (snd (post_convert_file x req w)) =
               sessions w @ [\<lparr> current_options = Some (pdfOptions r), browser_open = False,
                               create_calls = 1 \<rparr>]))"
proof -
  have none: "file_part req = None \<longrightarrow>
      post_convert_file x req w = (json_error 400 ''HTML file is required'', w)"
    by (simp add: post_convert_file_def upload_single_def convert_file_def)
  have refused: "file_part req = Some f \<and> fileFilter f = Inl e \<longrightarrow>
        post_convert_file x req w = (json_error 500 (message e), w)"
    by (simp add: post_convert_file_def upload_single_def error_middleware_def)
  have accepted: "file_part req = Some f \<and> fileFilter f = Inr True \<longrightarrow>
        (parse_options x (text_fields req) = Inl e \<longrightarrow>
           fst (post_convert_file x req w) = json_error 500 (message e)
           \<and> sessions (snd (post_convert_file x req w)) = sessions w)
        \<and> (parse_options x (text_fields req) = Inr opts \<and> resolve opts = Inl e \<longrightarrow>
           fst (post_convert_file x req w) = json_error 500 (message e)
           \<and> sessions (snd (post_convert_file x req w)) = sessions w @ [new_HTMLToPDFConverter])
        \<and> (parse_options x (text_fields req) = Inr opts \<and> resolve opts = Inr r
           \<and> render x (Some (pdfOptions r)) (JStr (decode_utf8 x (data f))) = Inr pdf \<longrightarrow>
           fst (post_convert_file x req w) = send_pdf pdf
           \<and> sessions (snd (post_convert_file x req w)) =
               sessions w @ [\<lparr> current_options = Some (pdfOptions r), browser_open = False,
                               create_calls = 1 \<rparr>])
        \<and> (parse_options x (text_fields req) = Inr opts \<and> resolve opts = Inr r
           \<and> render x (Some (pdfOptions r)) (JStr (decode_utf8 x (data f))) = Inl e \<longrightarrow>
           fst (post_convert_file x req w) = json_error 500 (''PDF creation failed: '' @ message e)
           \<and> sessions (snd (post_convert_file x req w)) =
               sessions w @ [\<lparr> current_options = Some (pdfOptions r), browser_open = False,
                               create_calls = 1 \<rparr>])"
  proof (intro impI)
    assume "file_part req = Some f \<and> fileFilter f = Inr True"
    then have a: "file_part req = Some f" "fileFilter f = Inr True" by simp_all
    note eq = post_convert_file_accepted [OF a, of x w]
    show "(parse_options x (text_fields req) = Inl e \<longrightarrow>
           fst (post_convert_file x req w) = json_error 500 (message e)
           \<and> sessions (snd (post_convert_file x req w)) = sessions w)
        \<and> (parse_options x (text_fields req) = Inr opts \<and> resolve opts = Inl e \<longrightarrow>
           fst (post_convert_file x req w) = json_error 500 (message e)
           \<and> sessions (snd (post_convert_file x req w)) = sessions w @ [new_HTMLToPDFConverter])
        \<and> (parse_options x (text_fields req) = Inr opts \<and> resolve opts = Inr r
           \<and> render x (Some (pdfOptions r)) (JStr (decode_utf8 x (data f))) = Inr pdf \<longrightarrow>
           fst (post_convert_file x req w) = send_pdf pdf
           \<and> sessions (snd (post_convert_file x req w)) =
               sessions w @ [\<lparr> current_options = Some (pdfOptions r), browser_open = False,
                               create_calls = 1 \<rparr>])
        \<and> (parse_options x (text_fields req) = Inr opts \<and> resolve opts = Inr r
           \<and> render x (Some (pdfOptions r)) (JStr (decode_utf8 x (data f))) = Inl e \<longrightarrow>
           fst (post_convert_file x req w) = json_error 500 (''PDF creation failed: '' @ message e)
           \<and> sessions (snd (post_convert_file x req w)) =
               sessions w @ [\<lparr> current_options = Some (pdfOptions r), browser_open = False,
                               create_calls = 1 \<rparr>])"
      unfolding eq
      by (simp add: convertHTML_fresh_resolved convertHTML_fresh_unresolved
                    upload_single_sessions remove_def)
  qed
  have st: "(status (fst (post_convert_file x req w)) = 400) = (file_part req = None)"
  proof (cases "file_part req")
    case None
    with none show ?thesis by (simp add: status_simps)
  next
    case (Some g)
    have "status (fst (post_convert_file x req w)) \<noteq> 400"
    proof (cases "fileFilter g")
      case (Inl err)
      with Some show ?thesis
        by (simp add: post_convert_file_def upload_single_def error_middleware_def status_simps)
    next
      case (Inr ok)
      then have t: "fileFilter g = Inr True" by (simp add: fileFilter_def split: if_splits)
      show ?thesis
        unfolding post_convert_file_accepted [OF Some t]
        by (auto simp: status_simps split: sum.splits prod.splits)
    qed
    with Some show ?thesis by simp
  qed
  from none st refused accepted show ?thesis by blast
qed

text \<open>
  C5, as the claim states it, fails: a request to the string route with a usable \<open>html\<close>
  and \<open>options: null\<close> is invalid input, yet it is answered with status 500, not 400,
  and no render is attempted (the converter made for it never calls \<open>create\<close>).
\<close>

theorem null_options_counterexample:
  "status (fst (convert_string printing
          (Some (JObj [(''html'', JStr ''<p>x</p>''), (''options'', JNull)])) empty_world)) = 500
   \<and> status (fst (convert_string printing
          (Some (JObj [(''html'', JStr ''<p>x</p>''), (''options'', JNull)])) empty_world)) \<noteq> 400
   \<and> map create_calls (sessions (snd (convert_string printing
          (Some (JObj [(''html'', JStr ''<p>x</p>''), (''options'', JNull)])) empty_world))) = [0]"
  by (simp add: convert_string_def convertHTML_def resolve_def with_default_def json_error_def
                empty_world_def new_HTMLToPDFConverter_def new_PuppeteerHTMLPDF_def Let_def)

text \<open>
  C5, amended. On each of the three conversion routes the answer is fixed by the request
  and by what the engine does with it.
  \<^item> With a truthy \<open>html\<close> or \<open>url\<close> in a body that is not \<open>null\<close>, or with an accepted
    upload, and with options that resolve, \<open>create\<close> is called once, with the resolved
    options and that content. If it returns a document, the answer is status 200 with
    \<open>Content-Type: application/pdf\<close>, \<open>Content-Disposition: attachment;
    filename="converted.pdf"\<close> and exactly those bytes. If it throws, the answer is
    status 500 with the JSON body \<open>{ error: 'PDF creation failed: ' + message }\<close>.
  \<^item> The answer is status 400, with a JSON \<open>error\<close> body, exactly when the body is there,
    is not \<open>null\<close>, and has no truthy \<open>html\<close> (or \<open>url\<close>), or when no file was uploaded.
  \<^item> Every other failure is answered with status 500 and a JSON \<open>error\<close> body, without
    any call of \<open>create\<close>: options that are \<open>null\<close>, a body that is \<open>undefined\<close> or
    \<open>null\<close>, an options field that does not parse, a refused upload.
  No request calls \<open>create\<close> more than once.
\<close>

theorem conversion_replies:
  "((body = Some b \<and> b \<noteq> JNull \<and> get_prop b ''html'' = Some v \<and> truthy v \<longrightarrow>
      (resolve (with_default (get_prop b ''options'') (JObj [])) = Inr r
         \<and> render x (Some (pdfOptions r)) v = Inr pdf \<longrightarrow>
           convert_string x body w =
             (send_pdf pdf,
              w\<lparr> sessions := sessions w @
                   [\<lparr> current_options = Some (pdfOptions r), browser_open = False,
                      create_calls = 1 \<rparr>] \<rparr>))
      \<and> (resolve (with_default (get_prop b ''options'') (JObj [])) = Inr r
         \<and> render x (Some (pdfOptions r)) v = Inl e \<longrightarrow>
           convert_string x body w =
             (json_error 500 (''PDF creation failed: '' @ message e),
              w\<lparr> sessions := sessions w @
                   [\<lparr> current_options = Some (pdfOptions r), browser_open = False,
                      create_calls = 1 \<rparr>] \<rparr>))
      \<and> (get_prop b ''options'' = Some JNull \<longrightarrow>
           (\<exists>m. convert_string x body w =
                  (json_error 500 m, w\<lparr> sessions := sessions w @ [new_HTMLToPDFConverter] \<rparr>))))
    \<and> (status (fst (convert_string x body w)) = 400 \<longrightarrow>
        convert_string x body w = (json_error 400 ''HTML content is required'', w))
    \<and> (body = None \<or> body = Some JNull \<longrightarrow>
        (\<exists>m. convert_string x body w = (json_error 500 m, w))))
   \<and> ((status (fst (convert_string x body w)) = 400) =
        (\<exists>b. body = Some b \<and> b \<noteq> JNull \<and> (\<forall>v. get_prop b ''html'' = Some v \<longrightarrow> \<not> truthy v)))
   \<and> ((body = Some b \<and> b \<noteq> JNull \<and> get_prop b ''url'' = Some v \<and> truthy v \<longrightarrow>
      (resolve (with_default (get_prop b ''options'') (JObj [])) = Inr r
         \<and> render x (Some (pdfOptions r)) v = Inr pdf \<longrightarrow>
           convert_url x body w =
             (send_pdf pdf,
              w\<lparr> sessions := sessions w @
                   [\<lparr> current_options = Some (pdfOptions r), browser_open = False,
                      create_calls = 1 \<rparr>] \<rparr>))
      \<and> (resolve (with_default (get_prop b ''options'') (JObj [])) = Inr r
         \<and> render x (Some (pdfOptions r)) v = Inl e \<longrightarrow>
           convert_url x body w =
             (json_error 500 (''PDF creation failed: '' @ message e),
              w\<lparr> sessions := sessions w @
                   [\<lparr> current_options = Some (pdfOptions r), browser_open = False,
                      create_calls = 1 \<rparr>] \<rparr>))
      \<and> (get_prop b ''options'' = Some JNull \<longrightarrow>
           (\<exists>m. convert_url x body w =
                  (json_error 500 m, w\<lparr> sessions := sessions w @ [new_HTMLToPDFConverter] \<rparr>))))
    \<and> (status (fst (convert_url x body w)) = 400 \<longrightarrow>
        convert_url x body w = (json_error 400 ''URL is required'', w))
    \<and> (body = None \<or> body = Some JNull \<longrightarrow>
        (\<exists>m. convert_url x body w = (json_error 500 m, w))))
   \<and> ((status (fst (convert_url x body w)) = 400) =
        (\<exists>b. body = Some b \<and> b \<noteq> JNull \<and> (\<forall>v. get_prop b ''url'' = Some v \<longrightarrow> \<not> truthy v)))
   \<and> ((file_part req = None \<longrightarrow>
      post_convert_file x req w = (json_error 400 ''HTML file is required'', w))
    \<and> ((status (fst (post_convert_file x req w)) = 400) = (file_part req = None))
    \<and> (file_part req = Some f \<and> fileFilter f = Inl e \<longrightarrow>
        post_convert_file x req w = (json_error 500 (message e), w))
    \<and> (file_part req = Some f \<and> fileFilter f = Inr True \<longrightarrow>
        (parse_options x (text_fields req) = Inl e \<longrightarrow>
           fst (post_convert_file x req w) = json_error 500 (message e)
           \<and> sessions (snd (post_convert_file x req w)) = sessions w)
        \<and> (parse_options x (text_fields req) = Inr opts \<and> resolve opts = Inl e \<longrightarrow>
           fst (post_convert_file x req w) = json_error 500 (message e)
           \<and> sessions (snd (post_convert_file x req w)) = sessions w @ [new_HTMLToPDFConverter])
        \<and> (parse_options x (text_fields req) = Inr opts \<and> resolve opts = Inr r
           \<and> render x (Some (pdfOptions r)) (JStr (decode_utf8 x (data f))) = Inr pdf \<longrightarrow>
           fst (post_convert_file x req w) = send_pdf pdf
           \<and> sessions (snd (post_convert_file x req w)) =
               sessions w @ [\<lparr> current_options = Some (pdfOptions r), browser_open = False,
                               create_calls = 1 \<rparr>])
        \<and> (parse_options x (text_fields req) = Inr opts \<and> resolve opts = Inr r
           \<and> render x (Some (pdfOptions r)) (JStr (decode_utf8 x (data f))) = Inl e \<longrightarrow>
           fst (post_convert_file x req w) = json_error 500 (''PDF creation failed: '' @ message e)
           \<and> sessions (snd (post_convert_file x req w)) =
               sessions w @ [\<lparr> current_options = Some (pdfOptions r), browser_open = False,
                               create_calls = 1 \<rparr>])))
   \<and> create_calls new_HTMLToPDFConverter = 0
   \<and> send_pdf pdf =
        \<lparr> status = 200,
          headers = [(''Content-Type'', ''application/pdf''),
                     (''Content-Disposition'',
                      ''attachment; filename='' @ [CHR 0x22] @ ''converted.pdf'' @ [CHR 0x22])],
          payload = Binary pdf \<rparr>
   \<and> json_error code msg =
        \<lparr> status = code, headers = [], payload = Json (JObj [(''error'', JStr msg)]) \<rparr>"
proof -
  have shapes: "create_calls new_HTMLToPDFConverter = 0
     \<and> send_pdf pdf =
        \<lparr> status = 200,
          headers = [(''Content-Type'', ''application/pdf''),
                     (''Content-Disposition'',
                      ''attachment; filename='' @ [CHR 0x22] @ ''converted.pdf'' @ [CHR 0x22])],
          payload = Binary pdf \<rparr>
     \<and> json_error code msg =
        \<lparr> status = code, headers = [], payload = Json (JObj [(''error'', JStr msg)]) \<rparr>"
    by (simp add: send_pdf_def json_error_def new_HTMLToPDFConverter_def new_PuppeteerHTMLPDF_def)
  show ?thesis
    by (rule conjI [OF convert_string_cases
          conjI [OF convert_string_400
            conjI [OF convert_url_cases
              conjI [OF convert_url_400
                conjI [OF post_convert_file_cases shapes]]]]])
qed

theorem conversion_replies_witness:
  "JObj [(''html'', JStr ''<p>x</p>'')] \<noteq> JNull
   \<and> get_prop (JObj [(''html'', JStr ''<p>x</p>'')]) ''html'' = Some (JStr ''<p>x</p>'')
   \<and> truthy (JStr ''<p>x</p>'')
   \<and> resolve (with_default (get_prop (JObj [(''html'', JStr ''<p>x</p>'')]) ''options'') (JObj []))
       = Inr default_options
   \<and> render printing (Some (pdfOptions default_options)) (JStr ''<p>x</p>'') = Inr ''%PDF-1.4''
   \<and> fst (convert_string printing (Some (JObj [(''html'', JStr ''<p>x</p>'')])) empty_world) =
       send_pdf ''%PDF-1.4''
   \<and> render timing_out (Some (pdfOptions default_options)) (JStr ''<p>x</p>'') =
       Inl (Error ''Navigation timeout of 30000 ms exceeded'')
   \<and> fst (convert_string timing_out (Some (JObj [(''html'', JStr ''<p>x</p>'')])) empty_world) =
       json_error 500 ''PDF creation failed: Navigation timeout of 30000 ms exceeded''"
proof -
  let ?b = "JObj [(''html'', JStr ''<p>x</p>'')]"
  have b: "?b \<noteq> JNull" "get_prop ?b ''html'' = Some (JStr ''<p>x</p>'')" "truthy (JStr ''<p>x</p>'')"
    by simp_all
  have r: "resolve (with_default (get_prop ?b ''options'') (JObj [])) = Inr default_options"
    by (simp add: resolve_def with_default_def default_options_def)
  have ok: "render printing (Some (pdfOptions default_options)) (JStr ''<p>x</p>'') = Inr ''%PDF-1.4''"
    by (simp add: printing_def)
  have ko: "render timing_out (Some (pdfOptions default_options)) (JStr ''<p>x</p>'') =
              Inl (Error ''Navigation timeout of 30000 ms exceeded'')"
    by (simp add: timing_out_def)
  from conversion_replies
         [of "Some ?b" ?b "JStr ''<p>x</p>''" default_options printing "''%PDF-1.4''" empty_world]
       b r ok
  have one: "fst (convert_string printing (Some ?b) empty_world) = send_pdf ''%PDF-1.4''"
    by simp
  from conversion_replies
         [of "Some ?b" ?b "JStr ''<p>x</p>''" default_options timing_out _ empty_world
             "Error ''Navigation timeout of 30000 ms exceeded''"]
       b r ko
  have two: "fst (convert_string timing_out (Some ?b) empty_world) =
               json_error 500 ''PDF creation failed: Navigation timeout of 30000 ms exceeded''"
    by simp
  from b r ok ko one two show ?thesis by simp
qed

end
